theory Spec2Isabelle
  imports Main "HOL-Library.Word"
begin

section \<open>Addresses, integers and errors\<close>

text \<open>
  Raw pointers are addresses; \<open>0\<close> is \<^verbatim>\<open>nullptr\<close>. The counters of a control block are
  C++ \<^verbatim>\<open>int\<close>s, taken here as 32-bit two's complement words read with \<open>sint\<close>. Signed
  overflow is undefined behaviour in C++, so it is an error value of the model and not a
  wrap-around. \<^verbatim>\<open>size_t\<close> is a 64-bit unsigned word.

  Two things can go wrong: the exception \<^verbatim>\<open>BadWeakPtr\<close> of sw_fwd.h, and undefined
  behaviour (a null or dangling dereference, the use of a destroyed object, the second
  destruction of a payload, signed overflow). \<open>OutOfFuel\<close> is not an outcome of the
  program: releasing a handle can run the destructor of a payload, which destroys the
  handles that are its members, which can release further payloads, and the operations
  that release take a bound \<open>n\<close> on the depth of this nesting; \<open>OutOfFuel\<close> says that the
  bound was too small.
\<close>

type_synonym ptr = nat
type_synonym cint = "32 word"
type_synonym size_t = "64 word"

datatype error = BadWeakPtr | Undefined | OutOfFuel

definition bindE :: "error + 'a \<Rightarrow> ('a \<Rightarrow> error + 'b) \<Rightarrow> error + 'b" where
  "bindE m f = (case m of Inl e \<Rightarrow> Inl e | Inr x \<Rightarrow> f x)"

definition INT_MAX :: int where
  "INT_MAX = 2147483647"

definition INT_MIN :: int where
  "INT_MIN = - 2147483648"

section \<open>Control blocks\<close>

text \<open>
  \<^verbatim>\<open>ControlBlockBase\<close> holds the two counters. Its two subclasses add the payload:
  \<^verbatim>\<open>ControlBlockPointer\<close> stores the adopted pointer, \<^verbatim>\<open>ControlBlockHolder\<close> embeds the
  storage, and \<open>pointer\<close> is what \<^verbatim>\<open>GetPointer()\<close> returns in either case. \<open>holder\<close>
  tells the two apart.
\<close>

record ControlBlockBase =
  strong_counter :: cint
  weak_counter :: cint
  pointer :: ptr
  holder :: bool

definition ControlBlockPointer :: "ptr \<Rightarrow> ControlBlockBase" where
  "ControlBlockPointer p = \<lparr>strong_counter = 1, weak_counter = 0, pointer = p, holder = False\<rparr>"

definition ControlBlockHolder :: "ptr \<Rightarrow> ControlBlockBase" where
  "ControlBlockHolder p = \<lparr>strong_counter = 1, weak_counter = 0, pointer = p, holder = True\<rparr>"

definition IncrementStrongCounter :: "ControlBlockBase \<Rightarrow> error + ControlBlockBase" where
  "IncrementStrongCounter cb =
     (if sint (strong_counter cb) = INT_MAX then Inl Undefined
      else Inr (cb\<lparr>strong_counter := strong_counter cb + 1\<rparr>))"

definition DecrementStrongCounter :: "ControlBlockBase \<Rightarrow> error + ControlBlockBase" where
  "DecrementStrongCounter cb =
     (if sint (strong_counter cb) = INT_MIN then Inl Undefined
      else Inr (cb\<lparr>strong_counter := strong_counter cb - 1\<rparr>))"

definition IncrementWeakCounter :: "ControlBlockBase \<Rightarrow> error + ControlBlockBase" where
  "IncrementWeakCounter cb =
     (if sint (weak_counter cb) = INT_MAX then Inl Undefined
      else Inr (cb\<lparr>weak_counter := weak_counter cb + 1\<rparr>))"

definition DecrementWeakCounter :: "ControlBlockBase \<Rightarrow> error + ControlBlockBase" where
  "DecrementWeakCounter cb =
     (if sint (weak_counter cb) = INT_MIN then Inl Undefined
      else Inr (cb\<lparr>weak_counter := weak_counter cb - 1\<rparr>))"

section \<open>The program state\<close>

text \<open>
  A handle object is a \<^verbatim>\<open>SharedPtr\<close> or a \<^verbatim>\<open>WeakPtr\<close> with its two fields \<^verbatim>\<open>ptr_\<close> and
  \<^verbatim>\<open>block_\<close> (\<open>None\<close> is the null block pointer), or it has been destroyed. Handle
  objects live in \<open>vars\<close> and are named by their index there, which plays the role of
  the object's address (\<^verbatim>\<open>this\<close>, \<^verbatim>\<open>&other\<close>). Control blocks live in \<open>blocks\<close>; a block
  that \<^verbatim>\<open>delete block_\<close> has freed is \<open>None\<close>, and reading it is undefined behaviour.
  Neither index is ever reused.

  \<open>weak_this\<close> lists the payload objects whose class derives from
  \<^verbatim>\<open>EnableSharedFromThis\<close>: the payload's address and the handle object that is its
  member \<^verbatim>\<open>weak_this\<close>. It stands for the compile-time test
  \<^verbatim>\<open>std::is_convertible_v<T*, IEnableSharedFromThis*>\<close>.

  The payload type \<^verbatim>\<open>T\<close> is a parameter of the library, and a payload can have handles
  among its data members, as in \<^verbatim>\<open>struct Node { SharedPtr<Node> next; }\<close>. \<open>members\<close> lists
  them, the payload's address with the handle object, in the order of their declaration;
  such a handle is reached through the payload (\<^verbatim>\<open>h->next\<close>) and is named by its index
  like any other. \<open>destroyed\<close> lists the addresses of the payloads whose destructor has
  been entered: destroying one of them again is undefined behaviour.

  \<open>trace\<close> records every call of \<^verbatim>\<open>DeletePointer\<close> and every \<^verbatim>\<open>delete block_\<close>, in order.
\<close>

datatype obj = SharedPtr ptr "nat option" | WeakPtr ptr "nat option" | Destroyed

datatype event = DeletePointer_call nat | Block_delete nat

record state =
  blocks :: "ControlBlockBase option list"
  vars :: "obj list"
  weak_this :: "(ptr \<times> nat) list"
  members :: "(ptr \<times> nat) list"
  destroyed :: "ptr list"
  trace :: "event list"

definition init :: state where
  "init = \<lparr>blocks = [], vars = [], weak_this = [], members = [], destroyed = [], trace = []\<rparr>"

definition block_at :: "state \<Rightarrow> nat \<Rightarrow> ControlBlockBase option" where
  "block_at s b = (if b < length (blocks s) then blocks s ! b else None)"

definition var_at :: "state \<Rightarrow> nat \<Rightarrow> obj" where
  "var_at s i = (if i < length (vars s) then vars s ! i else Destroyed)"

definition deref :: "nat \<Rightarrow> state \<Rightarrow> error + ControlBlockBase" where
  "deref b s = (case block_at s b of None \<Rightarrow> Inl Undefined | Some cb \<Rightarrow> Inr cb)"

definition call :: "nat \<Rightarrow> (ControlBlockBase \<Rightarrow> error + ControlBlockBase) \<Rightarrow> state \<Rightarrow> error + state" where
  "call b m s =
     bindE (deref b s) (\<lambda>cb. bindE (m cb) (\<lambda>cb'. Inr (s\<lparr>blocks := (blocks s)[b := Some cb']\<rparr>)))"

definition delete_block :: "nat \<Rightarrow> state \<Rightarrow> error + state" where
  "delete_block b s =
     bindE (deref b s)
       (\<lambda>cb. Inr (s\<lparr>blocks := (blocks s)[b := None], trace := trace s @ [Block_delete b]\<rparr>))"

definition shared_fields :: "nat \<Rightarrow> state \<Rightarrow> error + ptr \<times> nat option" where
  "shared_fields i s = (case var_at s i of SharedPtr p bl \<Rightarrow> Inr (p, bl) | _ \<Rightarrow> Inl Undefined)"

definition weak_fields :: "nat \<Rightarrow> state \<Rightarrow> error + ptr \<times> nat option" where
  "weak_fields i s = (case var_at s i of WeakPtr p bl \<Rightarrow> Inr (p, bl) | _ \<Rightarrow> Inl Undefined)"

definition set_var :: "nat \<Rightarrow> obj \<Rightarrow> state \<Rightarrow> state" where
  "set_var i v s = s\<lparr>vars := (vars s)[i := v]\<rparr>"

definition new_var :: "obj \<Rightarrow> state \<Rightarrow> state" where
  "new_var v s = s\<lparr>vars := vars s @ [v]\<rparr>"

definition new_block :: "ControlBlockBase \<Rightarrow> state \<Rightarrow> state" where
  "new_block cb s = s\<lparr>blocks := blocks s @ [Some cb]\<rparr>"

definition members_of :: "ptr \<Rightarrow> state \<Rightarrow> nat list" where
  "members_of p s = map snd (filter (\<lambda>e. fst e = p) (members s))"

section \<open>WeakPtr (weak.h)\<close>

text \<open>
  The protected helpers read \<^verbatim>\<open>block_\<close> of \<^verbatim>\<open>this\<close>; here they take that field as their
  argument.
\<close>

definition IncrementBlockWeakCounter :: "nat option \<Rightarrow> state \<Rightarrow> error + state" where
  "IncrementBlockWeakCounter bl s =
     (case bl of None \<Rightarrow> Inr s | Some b \<Rightarrow> call b IncrementWeakCounter s)"

definition DecrementBlockWeakCounter :: "nat option \<Rightarrow> state \<Rightarrow> error + state" where
  "DecrementBlockWeakCounter bl s =
     (case bl of None \<Rightarrow> Inr s
      | Some b \<Rightarrow>
          bindE (deref b s) (\<lambda>cb.
            if strong_counter cb = 0 \<and> sint (weak_counter cb) \<le> 1 then delete_block b s
            else call b DecrementWeakCounter s))"

text \<open>Constructors make a new handle object, at index \<open>length (vars s)\<close>.\<close>

definition WeakPtr_default :: "state \<Rightarrow> error + state" where
  "WeakPtr_default s = Inr (new_var (WeakPtr 0 None) s)"

definition WeakPtr_copy :: "nat \<Rightarrow> state \<Rightarrow> error + state" where
  "WeakPtr_copy other s =
     bindE (weak_fields other s) (\<lambda>(p, bl).
       IncrementBlockWeakCounter bl (new_var (WeakPtr p bl) s))"

definition WeakPtr_move :: "nat \<Rightarrow> state \<Rightarrow> error + state" where
  "WeakPtr_move other s =
     bindE (weak_fields other s) (\<lambda>(p, bl).
       Inr (set_var other (WeakPtr 0 None) (new_var (WeakPtr p bl) s)))"

definition WeakPtr_from_shared :: "nat \<Rightarrow> state \<Rightarrow> error + state" where
  "WeakPtr_from_shared other s =
     bindE (shared_fields other s) (\<lambda>(p, bl).
       IncrementBlockWeakCounter bl (new_var (WeakPtr p bl) s))"

definition WeakPtr_assign :: "nat \<Rightarrow> nat \<Rightarrow> state \<Rightarrow> error + state" where
  "WeakPtr_assign this other s =
     bindE (weak_fields this s) (\<lambda>(p, bl).
       if this = other then Inr s
       else bindE (DecrementBlockWeakCounter bl s) (\<lambda>s1.
            bindE (weak_fields other s1) (\<lambda>(q, bl').
              IncrementBlockWeakCounter bl' (set_var this (WeakPtr q bl') s1))))"

definition WeakPtr_move_assign :: "nat \<Rightarrow> nat \<Rightarrow> state \<Rightarrow> error + state" where
  "WeakPtr_move_assign this other s =
     bindE (weak_fields this s) (\<lambda>(p, bl).
     bindE (DecrementBlockWeakCounter bl s) (\<lambda>s1.
       let s2 = set_var this (WeakPtr 0 None) s1 in
       bindE (weak_fields other s2) (\<lambda>(q, bl').
         Inr (set_var other (WeakPtr 0 None) (set_var this (WeakPtr q bl') s2)))))"

definition WeakPtr_dtor :: "nat \<Rightarrow> state \<Rightarrow> error + state" where
  "WeakPtr_dtor this s =
     bindE (weak_fields this s) (\<lambda>(p, bl).
     bindE (DecrementBlockWeakCounter bl s) (\<lambda>s1. Inr (set_var this Destroyed s1)))"

definition WeakPtr_Reset :: "nat \<Rightarrow> state \<Rightarrow> error + state" where
  "WeakPtr_Reset this s =
     bindE (weak_fields this s) (\<lambda>(p, bl).
     bindE (DecrementBlockWeakCounter bl s) (\<lambda>s1. Inr (set_var this (WeakPtr 0 None) s1)))"

definition WeakPtr_Swap :: "nat \<Rightarrow> nat \<Rightarrow> state \<Rightarrow> error + state" where
  "WeakPtr_Swap this other s =
     bindE (weak_fields this s) (\<lambda>(p, bl).
     bindE (weak_fields other s) (\<lambda>(q, bl').
       Inr (set_var other (WeakPtr p bl) (set_var this (WeakPtr q bl') s))))"

definition WeakPtr_UseCount :: "nat \<Rightarrow> state \<Rightarrow> error + size_t" where
  "WeakPtr_UseCount this s =
     bindE (weak_fields this s) (\<lambda>(p, bl).
       case bl of None \<Rightarrow> Inr 0
       | Some b \<Rightarrow> bindE (deref b s) (\<lambda>cb. Inr (scast (strong_counter cb))))"

definition Expired :: "nat \<Rightarrow> state \<Rightarrow> error + bool" where
  "Expired this s =
     bindE (weak_fields this s) (\<lambda>(p, bl).
       case bl of None \<Rightarrow> Inr True
       | Some b \<Rightarrow> bindE (deref b s) (\<lambda>cb. Inr (strong_counter cb = 0)))"

section \<open>SharedPtr, MakeShared and EnableSharedFromThis\<close>

definition IncrementBlockStrongCounter :: "nat option \<Rightarrow> state \<Rightarrow> error + state" where
  "IncrementBlockStrongCounter bl s =
     (case bl of None \<Rightarrow> Inr s | Some b \<Rightarrow> call b IncrementStrongCounter s)"

text \<open>
  Releasing a strong reference. \<^verbatim>\<open>DecrementBlockStrongCounter\<close> can call \<^verbatim>\<open>DeletePointer\<close>,
  which runs the payload's destructor, by \<^verbatim>\<open>delete ptr_\<close> or by \<^verbatim>\<open>GetPointer()->~T()\<close>
  (\<^verbatim>\<open>delete\<close> of a null pointer does nothing). The destructor of a payload destroys its
  member handles in the reverse order of their declaration and then the member
  \<^verbatim>\<open>weak_this\<close> of the base class \<^verbatim>\<open>EnableSharedFromThis\<close>, if there is one; the destructor
  of a member \<^verbatim>\<open>SharedPtr\<close> is \<^verbatim>\<open>~SharedPtr\<close>, which calls \<^verbatim>\<open>DecrementBlockStrongCounter\<close>
  again. The functions of this cycle are defined together; \<open>n\<close> bounds the depth of
  member destructors still allowed below the call.
\<close>

function (sequential)
  DecrementBlockStrongCounter :: "nat \<Rightarrow> nat option \<Rightarrow> state \<Rightarrow> error + state"
  and DeletePointer :: "nat \<Rightarrow> nat \<Rightarrow> state \<Rightarrow> error + state"
  and destroy_payload :: "nat \<Rightarrow> ptr \<Rightarrow> state \<Rightarrow> error + state"
  and destroy_members :: "nat \<Rightarrow> nat list \<Rightarrow> state \<Rightarrow> error + state"
  and destroy_member :: "nat \<Rightarrow> nat \<Rightarrow> state \<Rightarrow> error + state"
  and SharedPtr_dtor :: "nat \<Rightarrow> nat \<Rightarrow> state \<Rightarrow> error + state"
where
  "DecrementBlockStrongCounter n bl s =
     (case bl of None \<Rightarrow> Inr s
      | Some b \<Rightarrow>
          bindE (deref b s) (\<lambda>cb.
            if strong_counter cb = 1 \<and> weak_counter cb = 0
            then bindE (DeletePointer n b s) (delete_block b)
            else bindE (call b DecrementStrongCounter s) (\<lambda>s1.
                 bindE (deref b s1) (\<lambda>cb1.
                   if sint (strong_counter cb1) \<le> 0 then DeletePointer n b s1 else Inr s1))))"
| "DeletePointer n b s =
     bindE (deref b s) (\<lambda>cb.
       destroy_payload n (pointer cb) (s\<lparr>trace := trace s @ [DeletePointer_call b]\<rparr>))"
| "destroy_payload n p s =
     (if p = 0 then Inr s
      else if p \<in> set (destroyed s) then Inl Undefined
      else bindE (destroy_members n (rev (members_of p s)) (s\<lparr>destroyed := p # destroyed s\<rparr>))
             (\<lambda>s1. case map_of (weak_this s1) p of
                     None \<Rightarrow> Inr s1
                   | Some w \<Rightarrow> WeakPtr_dtor w s1))"
| "destroy_members n [] s = Inr s"
| "destroy_members n (v # vs) s =
     bindE (destroy_member n v s) (\<lambda>s1. destroy_members n vs s1)"
| "destroy_member 0 v s = Inl OutOfFuel"
| "destroy_member (Suc n) v s =
     (case var_at s v of
        SharedPtr p bl \<Rightarrow> SharedPtr_dtor n v s
      | WeakPtr p bl \<Rightarrow> WeakPtr_dtor v s
      | Destroyed \<Rightarrow> Inl Undefined)"
| "SharedPtr_dtor n this s =
     bindE (shared_fields this s) (\<lambda>(p, bl).
     bindE (DecrementBlockStrongCounter n bl s) (\<lambda>s1. Inr (set_var this Destroyed s1)))"
  by pat_completeness auto

termination
  by (relation "inv_image (less_than <*lex*> less_than <*lex*> less_than)
        (\<lambda>x. case x of
           Inl (Inl (n, bl, s)) \<Rightarrow> (n, 4::nat, 0::nat)
         | Inl (Inr (Inl (n, b, s))) \<Rightarrow> (n, 3, 0)
         | Inl (Inr (Inr (n, p, s))) \<Rightarrow> (n, 2, 0)
         | Inr (Inl (n, vs, s)) \<Rightarrow> (n, 1, length vs)
         | Inr (Inr (Inl (n, v, s))) \<Rightarrow> (n, 0, 0)
         | Inr (Inr (Inr (n, this, s))) \<Rightarrow> (n, 5, 0))") auto

text \<open>
  The statement \<^verbatim>\<open>ptr->weak_this = *this;\<close> of the owning constructors: a temporary
  \<^verbatim>\<open>WeakPtr\<close> is made from the new \<^verbatim>\<open>SharedPtr\<close>, move-assigned to the member, and
  destroyed.
\<close>

definition assign_weak_this :: "nat \<Rightarrow> nat \<Rightarrow> state \<Rightarrow> error + state" where
  "assign_weak_this w this s =
     (let tmp = length (vars s) in
      bindE (WeakPtr_from_shared this s) (\<lambda>s1.
      bindE (WeakPtr_move_assign w tmp s1) (\<lambda>s2.
        WeakPtr_dtor tmp s2)))"

definition SharedPtr_default :: "state \<Rightarrow> error + state" where
  "SharedPtr_default s = Inr (new_var (SharedPtr 0 None) s)"

definition SharedPtr_from_ptr :: "ptr \<Rightarrow> state \<Rightarrow> error + state" where
  "SharedPtr_from_ptr p s =
     (let this = length (vars s);
          s1 = new_var (SharedPtr p (Some (length (blocks s)))) (new_block (ControlBlockPointer p) s)
      in case map_of (weak_this s1) p of
           None \<Rightarrow> Inr s1
         | Some w \<Rightarrow> assign_weak_this w this s1)"

definition SharedPtr_copy :: "nat \<Rightarrow> state \<Rightarrow> error + state" where
  "SharedPtr_copy other s =
     bindE (shared_fields other s) (\<lambda>(p, bl).
       IncrementBlockStrongCounter bl (new_var (SharedPtr p bl) s))"

definition SharedPtr_from_holder :: "nat \<Rightarrow> state \<Rightarrow> error + state" where
  "SharedPtr_from_holder b s =
     bindE (deref b s) (\<lambda>cb.
       let this = length (vars s);
           s1 = new_var (SharedPtr (pointer cb) (Some b)) s
       in case map_of (weak_this s1) (pointer cb) of
            None \<Rightarrow> Inr s1
          | Some w \<Rightarrow> assign_weak_this w this s1)"

definition SharedPtr_move :: "nat \<Rightarrow> state \<Rightarrow> error + state" where
  "SharedPtr_move other s =
     bindE (shared_fields other s) (\<lambda>(p, bl).
       Inr (set_var other (SharedPtr 0 None) (new_var (SharedPtr p bl) s)))"

definition SharedPtr_alias :: "nat \<Rightarrow> ptr \<Rightarrow> state \<Rightarrow> error + state" where
  "SharedPtr_alias other q s =
     bindE (shared_fields other s) (\<lambda>(p, bl).
       IncrementBlockStrongCounter bl (new_var (SharedPtr q bl) s))"

text \<open>
  Promotion dereferences \<^verbatim>\<open>other.block_\<close> without a null test, so an empty \<^verbatim>\<open>WeakPtr\<close>
  is undefined behaviour here.
\<close>

definition SharedPtr_from_weak :: "nat \<Rightarrow> state \<Rightarrow> error + state" where
  "SharedPtr_from_weak other s =
     bindE (weak_fields other s) (\<lambda>(p, bl).
       case bl of None \<Rightarrow> Inl Undefined
       | Some b \<Rightarrow>
           bindE (deref b s) (\<lambda>cb.
             if strong_counter cb = 0 then Inl BadWeakPtr
             else call b IncrementStrongCounter (new_var (SharedPtr p bl) s)))"

definition SharedPtr_assign :: "nat \<Rightarrow> nat \<Rightarrow> nat \<Rightarrow> state \<Rightarrow> error + state" where
  "SharedPtr_assign n this other s =
     bindE (shared_fields this s) (\<lambda>(p, bl).
       if this = other then Inr s
       else bindE (DecrementBlockStrongCounter n bl s) (\<lambda>s1.
            bindE (shared_fields other s1) (\<lambda>(q, bl').
            bindE (IncrementBlockStrongCounter bl' (set_var this (SharedPtr p bl') s1)) (\<lambda>s2.
              Inr (set_var this (SharedPtr q bl') s2)))))"

definition SharedPtr_move_assign :: "nat \<Rightarrow> nat \<Rightarrow> nat \<Rightarrow> state \<Rightarrow> error + state" where
  "SharedPtr_move_assign n this other s =
     bindE (shared_fields this s) (\<lambda>(p, bl).
       if this = other then Inr s
       else bindE (DecrementBlockStrongCounter n bl s) (\<lambda>s1.
            let s2 = set_var this (SharedPtr 0 None) s1 in
            bindE (shared_fields other s2) (\<lambda>(q, bl').
              Inr (set_var other (SharedPtr 0 None) (set_var this (SharedPtr q bl') s2)))))"

definition SharedPtr_Reset :: "nat \<Rightarrow> nat \<Rightarrow> state \<Rightarrow> error + state" where
  "SharedPtr_Reset n this s =
     bindE (shared_fields this s) (\<lambda>(p, bl).
     bindE (DecrementBlockStrongCounter n bl s) (\<lambda>s1. Inr (set_var this (SharedPtr 0 None) s1)))"

definition SharedPtr_Reset_ptr :: "nat \<Rightarrow> nat \<Rightarrow> ptr \<Rightarrow> state \<Rightarrow> error + state" where
  "SharedPtr_Reset_ptr n this q s =
     bindE (shared_fields this s) (\<lambda>(p, bl).
     bindE (DecrementBlockStrongCounter n bl s) (\<lambda>s1.
       Inr (set_var this (SharedPtr q (Some (length (blocks s1)))) (new_block (ControlBlockPointer q) s1))))"

definition SharedPtr_Swap :: "nat \<Rightarrow> nat \<Rightarrow> state \<Rightarrow> error + state" where
  "SharedPtr_Swap this other s =
     bindE (shared_fields this s) (\<lambda>(p, bl).
     bindE (shared_fields other s) (\<lambda>(q, bl').
       Inr (set_var other (SharedPtr p bl) (set_var this (SharedPtr q bl') s))))"

definition Get :: "nat \<Rightarrow> state \<Rightarrow> error + ptr" where
  "Get this s = bindE (shared_fields this s) (\<lambda>(p, bl). Inr p)"

definition SharedPtr_UseCount :: "nat \<Rightarrow> state \<Rightarrow> error + size_t" where
  "SharedPtr_UseCount this s =
     bindE (shared_fields this s) (\<lambda>(p, bl).
       case bl of None \<Rightarrow> Inr 0
       | Some b \<Rightarrow> bindE (deref b s) (\<lambda>cb. Inr (scast (strong_counter cb))))"

definition Lock :: "nat \<Rightarrow> state \<Rightarrow> error + state" where
  "Lock this s =
     bindE (WeakPtr_UseCount this s) (\<lambda>n.
       if n = 0 then SharedPtr_default s else SharedPtr_from_weak this s)"

text \<open>
  \<open>New_T p esft ms\<close> is the construction of a payload object at address \<open>p\<close>, by \<^verbatim>\<open>new T\<close>
  or by the placement \<^verbatim>\<open>new\<close> of \<^verbatim>\<open>ControlBlockHolder\<close>; \<open>p\<close> is the allocator's choice
  and never null, and what the state records about an object that was at \<open>p\<close> before is
  dropped. The class \<^verbatim>\<open>T\<close> is described by \<open>esft\<close>, whether it derives from
  \<^verbatim>\<open>EnableSharedFromThis\<close>, and by \<open>ms\<close>, the handles among its data members in the order
  of their declaration. The constructor default-constructs the member \<^verbatim>\<open>weak_this\<close> of the
  base class first and then the members, all empty.
\<close>

datatype handle_kind = Strong | Weak

fun empty_handle :: "handle_kind \<Rightarrow> obj" where
  "empty_handle Strong = SharedPtr 0 None"
| "empty_handle Weak = WeakPtr 0 None"

definition New_T :: "ptr \<Rightarrow> bool \<Rightarrow> handle_kind list \<Rightarrow> state \<Rightarrow> error + state" where
  "New_T p esft ms s =
     (if p = 0 then Inl Undefined
      else
        let s0 = s\<lparr>weak_this := filter (\<lambda>e. fst e \<noteq> p) (weak_this s),
                   members := filter (\<lambda>e. fst e \<noteq> p) (members s),
                   destroyed := removeAll p (destroyed s)\<rparr>;
            s1 = (if esft
                  then (new_var (WeakPtr 0 None) s0)\<lparr>weak_this := (p, length (vars s0)) # weak_this s0\<rparr>
                  else s0)
        in Inr (s1\<lparr>vars := vars s1 @ map empty_handle ms,
                   members := members s1 @ map (\<lambda>i. (p, length (vars s1) + i)) [0..<length ms]\<rparr>))"

definition MakeShared :: "ptr \<Rightarrow> bool \<Rightarrow> handle_kind list \<Rightarrow> state \<Rightarrow> error + state" where
  "MakeShared p esft ms s =
     bindE (New_T p esft ms (new_block (ControlBlockHolder p) s)) (\<lambda>s1.
       SharedPtr_from_holder (length (blocks s)) s1)"

definition SharedFromThis :: "ptr \<Rightarrow> state \<Rightarrow> error + state" where
  "SharedFromThis p s =
     (case map_of (weak_this s) p of None \<Rightarrow> Inl Undefined | Some w \<Rightarrow> SharedPtr_from_weak w s)"

definition WeakFromThis :: "ptr \<Rightarrow> state \<Rightarrow> error + state" where
  "WeakFromThis p s =
     (case map_of (weak_this s) p of None \<Rightarrow> Inl Undefined | Some w \<Rightarrow> WeakPtr_copy w s)"

section \<open>Sequences of operations\<close>

text \<open>
  One constructor per operation of the public interface. The operands are indices of
  handle objects, raw pointers and, for a construction of a payload, the description of
  its class. A step takes the bound \<open>n\<close> of the operations that release.
\<close>

datatype op =
    New ptr bool "handle_kind list"
  | S_default
  | S_from_ptr ptr
  | S_make ptr bool "handle_kind list"
  | S_copy nat
  | S_move nat
  | S_alias nat ptr
  | S_from_weak nat
  | S_assign nat nat
  | S_move_assign nat nat
  | S_dtor nat
  | S_reset nat
  | S_reset_ptr nat ptr
  | S_swap nat nat
  | W_default
  | W_copy nat
  | W_move nat
  | W_from_shared nat
  | W_assign nat nat
  | W_move_assign nat nat
  | W_dtor nat
  | W_reset nat
  | W_swap nat nat
  | W_lock nat
  | Shared_from_this ptr
  | Weak_from_this ptr

fun step :: "nat \<Rightarrow> op \<Rightarrow> state \<Rightarrow> error + state" where
  "step n (New p esft ms) s = New_T p esft ms s"
| "step n S_default s = SharedPtr_default s"
| "step n (S_from_ptr p) s = SharedPtr_from_ptr p s"
| "step n (S_make p esft ms) s = MakeShared p esft ms s"
| "step n (S_copy i) s = SharedPtr_copy i s"
| "step n (S_move i) s = SharedPtr_move i s"
| "step n (S_alias i q) s = SharedPtr_alias i q s"
| "step n (S_from_weak i) s = SharedPtr_from_weak i s"
| "step n (S_assign i j) s = SharedPtr_assign n i j s"
| "step n (S_move_assign i j) s = SharedPtr_move_assign n i j s"
| "step n (S_dtor i) s = SharedPtr_dtor n i s"
| "step n (S_reset i) s = SharedPtr_Reset n i s"
| "step n (S_reset_ptr i q) s = SharedPtr_Reset_ptr n i q s"
| "step n (S_swap i j) s = SharedPtr_Swap i j s"
| "step n W_default s = WeakPtr_default s"
| "step n (W_copy i) s = WeakPtr_copy i s"
| "step n (W_move i) s = WeakPtr_move i s"
| "step n (W_from_shared i) s = WeakPtr_from_shared i s"
| "step n (W_assign i j) s = WeakPtr_assign i j s"
| "step n (W_move_assign i j) s = WeakPtr_move_assign i j s"
| "step n (W_dtor i) s = WeakPtr_dtor i s"
| "step n (W_reset i) s = WeakPtr_Reset i s"
| "step n (W_swap i j) s = WeakPtr_Swap i j s"
| "step n (W_lock i) s = Lock i s"
| "step n (Shared_from_this p) s = SharedFromThis p s"
| "step n (Weak_from_this p) s = WeakFromThis p s"

text \<open>
  A run stops at undefined behaviour. A \<^verbatim>\<open>BadWeakPtr\<close> is thrown by a constructor before
  it has changed anything, so the caller that catches it goes on from the same state.
\<close>

fun run :: "nat \<Rightarrow> state \<Rightarrow> op list \<Rightarrow> error + state" where
  "run n s [] = Inr s"
| "run n s (x # xs) =
     (case step n x s of
        Inl BadWeakPtr \<Rightarrow> run n s xs
      | Inl Undefined \<Rightarrow> Inl Undefined
      | Inl OutOfFuel \<Rightarrow> Inl OutOfFuel
      | Inr s' \<Rightarrow> run n s' xs)"

section \<open>UniquePtr\<close>

text \<open>
  Modelled from the spec: compressed_pair.h, which declares \<^verbatim>\<open>CompressedPair\<close>, is not among
  the sources. The exclusive handle is the sole owner of a resource plus a deletion policy;
  it keeps both in \<^verbatim>\<open>CompressedPair<T*, Deleter> data_\<close> and uses only the accessors
  \<^verbatim>\<open>GetFirst()\<close> and \<^verbatim>\<open>GetSecond()\<close>, the two components of the pair.

  \<open>first\<close> is the pointer of the handle and \<open>memory\<close> the rest of the program's memory.
  The policy is a template parameter, any callable on a pointer. Its code can reach the
  handle it belongs to as well as the memory, so it is a parameter of the operations, a
  function that takes the pointer it is called on and transforms the pointer of the handle
  together with the memory. \<open>deleter_calls\<close> records the arguments of the calls that the
  operations of the handle make, in order.
\<close>

record 'm UniquePtr =
  first :: ptr
  memory :: 'm
  deleter_calls :: "ptr list"

type_synonym 'm Deleter = "ptr \<Rightarrow> ptr \<times> 'm \<Rightarrow> ptr \<times> 'm"

text \<open>
  The default policy \<^verbatim>\<open>UniquePtrDeleter\<close> is \<^verbatim>\<open>delete ptr\<close>: with the memory as the set of
  allocated addresses, the address is no longer allocated, and the handle is left alone.
\<close>

definition UniquePtrDeleter :: "(ptr set) Deleter" where
  "UniquePtrDeleter ptr hm = (fst hm, snd hm - {ptr})"

definition UniquePtr_Get :: "'m UniquePtr \<Rightarrow> ptr" where
  "UniquePtr_Get u = first u"

text \<open>The call \<^verbatim>\<open>GetDeleter()(q)\<close>.\<close>

definition GetDeleter_call :: "'m Deleter \<Rightarrow> ptr \<Rightarrow> 'm UniquePtr \<Rightarrow> 'm UniquePtr" where
  "GetDeleter_call d q u =
     (let hm = d q (first u, memory u)
      in u\<lparr>first := fst hm, memory := snd hm, deleter_calls := deleter_calls u @ [q]\<rparr>)"

definition UniquePtr_Release :: "'m UniquePtr \<Rightarrow> ptr \<times> 'm UniquePtr" where
  "UniquePtr_Release u = (let tmp_data = first u in (tmp_data, u\<lparr>first := 0\<rparr>))"

definition UniquePtr_Reset :: "'m Deleter \<Rightarrow> ptr \<Rightarrow> 'm UniquePtr \<Rightarrow> 'm UniquePtr" where
  "UniquePtr_Reset d ptr u =
     (let tmp_ptr = UniquePtr_Get u;
          u1 = u\<lparr>first := ptr\<rparr>
      in GetDeleter_call d tmp_ptr u1)"

text \<open>
  The same operation in the order of the specification's sentence, ``destroys the
  current resource via the policy, then adopts new'', to compare with the source's order.
\<close>

definition Reset_as_specified :: "'m Deleter \<Rightarrow> ptr \<Rightarrow> 'm UniquePtr \<Rightarrow> 'm UniquePtr" where
  "Reset_as_specified d ptr u = (GetDeleter_call d (UniquePtr_Get u) u)\<lparr>first := ptr\<rparr>"

text \<open>
  Two policies that use the handle. \<open>logging_deleter\<close> writes down what \<^verbatim>\<open>Get()\<close> of its
  handle returns when it is called; its memory is that log. \<open>releasing_deleter\<close> frees
  the pointer like the default policy and then calls \<^verbatim>\<open>Release()\<close> on its handle.
\<close>

definition logging_deleter :: "(ptr list) Deleter" where
  "logging_deleter ptr hm = (fst hm, snd hm @ [fst hm])"

definition releasing_deleter :: "(ptr set) Deleter" where
  "releasing_deleter ptr hm = (0, snd hm - {ptr})"

section \<open>Live handles and events\<close>

text \<open>
  A live \<^verbatim>\<open>SharedPtr\<close> whose \<^verbatim>\<open>block_\<close> is block \<open>b\<close> owns \<open>b\<close>; a live \<^verbatim>\<open>WeakPtr\<close> observes
  it. The family of a block is the set of handle objects that own or observe it, and
  \<open>strong_handles\<close> and \<open>weak_handles\<close> count its members. \<open>payload_deletions\<close> and
  \<open>block_deletions\<close> count, in the trace, the calls of \<^verbatim>\<open>DeletePointer\<close> on the block and the
  executions of \<^verbatim>\<open>delete block_\<close> for it.
\<close>

fun owns :: "nat \<Rightarrow> obj \<Rightarrow> bool" where
  "owns b (SharedPtr p bl) = (bl = Some b)"
| "owns b _ = False"

fun observes :: "nat \<Rightarrow> obj \<Rightarrow> bool" where
  "observes b (WeakPtr p bl) = (bl = Some b)"
| "observes b _ = False"

definition strong_handles :: "state \<Rightarrow> nat \<Rightarrow> nat" where
  "strong_handles s b = length (filter (owns b) (vars s))"

definition weak_handles :: "state \<Rightarrow> nat \<Rightarrow> nat" where
  "weak_handles s b = length (filter (observes b) (vars s))"

definition payload_deletions :: "state \<Rightarrow> nat \<Rightarrow> nat" where
  "payload_deletions s b = count_list (trace s) (DeletePointer_call b)"

definition block_deletions :: "state \<Rightarrow> nat \<Rightarrow> nat" where
  "block_deletions s b = count_list (trace s) (Block_delete b)"

section \<open>Example states\<close>

text \<open>
  In \<open>ex_live\<close> a payload made by \<^verbatim>\<open>MakeShared\<close> and a payload adopted from a raw pointer
  each have one strong and one weak handle, and there is one empty \<^verbatim>\<open>WeakPtr\<close>. In
  \<open>ex_expired\<close> the only strong handle of a block has been reset while a weak handle still
  observes it. \<open>ex_strong_only\<close> has two owners of two payloads and no \<^verbatim>\<open>WeakPtr\<close> object;
  \<open>ex_weak_only\<close> has two \<^verbatim>\<open>WeakPtr\<close> objects, one of them attached, and no \<^verbatim>\<open>SharedPtr\<close>
  object.
\<close>

definition ex_live_ops :: "op list" where
  "ex_live_ops = [S_make 1 False [], W_from_shared 0, S_from_ptr 2, W_from_shared 2, W_default]"

definition ex_live :: state where
  "ex_live =
     \<lparr>blocks = [Some \<lparr>strong_counter = 1, weak_counter = 1, pointer = 1, holder = True\<rparr>,
                Some \<lparr>strong_counter = 1, weak_counter = 1, pointer = 2, holder = False\<rparr>],
      vars = [SharedPtr 1 (Some 0), WeakPtr 1 (Some 0), SharedPtr 2 (Some 1), WeakPtr 2 (Some 1),
              WeakPtr 0 None],
      weak_this = [], members = [], destroyed = [], trace = []\<rparr>"

definition ex_expired_ops :: "op list" where
  "ex_expired_ops = [S_make 1 False [], W_from_shared 0, S_reset 0]"

definition ex_expired :: state where
  "ex_expired =
     \<lparr>blocks = [Some \<lparr>strong_counter = 0, weak_counter = 1, pointer = 1, holder = True\<rparr>],
      vars = [SharedPtr 0 None, WeakPtr 1 (Some 0)],
      weak_this = [], members = [], destroyed = [1], trace = [DeletePointer_call 0]\<rparr>"

definition ex_strong_only_ops :: "op list" where
  "ex_strong_only_ops = [S_make 1 False [], S_from_ptr 2]"

definition ex_strong_only :: state where
  "ex_strong_only =
     \<lparr>blocks = [Some \<lparr>strong_counter = 1, weak_counter = 0, pointer = 1, holder = True\<rparr>,
                Some \<lparr>strong_counter = 1, weak_counter = 0, pointer = 2, holder = False\<rparr>],
      vars = [SharedPtr 1 (Some 0), SharedPtr 2 (Some 1)],
      weak_this = [], members = [], destroyed = [], trace = []\<rparr>"

definition ex_weak_only_ops :: "op list" where
  "ex_weak_only_ops = [S_make 1 False [], W_from_shared 0, S_dtor 0, W_default]"

definition ex_weak_only :: state where
  "ex_weak_only =
     \<lparr>blocks = [Some \<lparr>strong_counter = 0, weak_counter = 1, pointer = 1, holder = True\<rparr>],
      vars = [Destroyed, WeakPtr 1 (Some 0), WeakPtr 0 None],
      weak_this = [], members = [], destroyed = [1], trace = [DeletePointer_call 0]\<rparr>"

text \<open>
  A list of two nodes, \<^verbatim>\<open>struct Node { SharedPtr<Node> next; }\<close>: the handle \<open>h\<close> (object 1)
  is the only owner of the node at address 1, whose member \<^verbatim>\<open>next\<close> (object 0) is the only
  owner of the node at address 2, whose member \<^verbatim>\<open>next\<close> (object 2) is empty; object 3 was
  the temporary that first owned the second node. In \<open>ex_list\<close> the nodes were made by
  \<^verbatim>\<open>new Node\<close> and adopted, in \<open>ex_list_made\<close> by \<^verbatim>\<open>MakeShared\<close>. \<open>ex_list_released\<close> and
  \<open>ex_list_made_released\<close> are what the release of block 0 by \<open>h\<close> leaves of them.
\<close>

definition ex_list_ops :: "op list" where
  "ex_list_ops =
     [New 1 False [Strong], S_from_ptr 1, New 2 False [Strong], S_from_ptr 2,
      S_move_assign 0 3, S_dtor 3]"

definition ex_list :: state where
  "ex_list =
     \<lparr>blocks = [Some \<lparr>strong_counter = 1, weak_counter = 0, pointer = 1, holder = False\<rparr>,
                Some \<lparr>strong_counter = 1, weak_counter = 0, pointer = 2, holder = False\<rparr>],
      vars = [SharedPtr 2 (Some 1), SharedPtr 1 (Some 0), SharedPtr 0 None, Destroyed],
      weak_this = [], members = [(1, 0), (2, 2)], destroyed = [], trace = []\<rparr>"

definition ex_list_released :: state where
  "ex_list_released =
     \<lparr>blocks = [None, None],
      vars = [Destroyed, SharedPtr 1 (Some 0), Destroyed, Destroyed],
      weak_this = [], members = [(1, 0), (2, 2)], destroyed = [2, 1],
      trace = [DeletePointer_call 0, DeletePointer_call 1, Block_delete 1, Block_delete 0]\<rparr>"

definition ex_list_made_ops :: "op list" where
  "ex_list_made_ops =
     [S_make 1 False [Strong], S_make 2 False [Strong], S_move_assign 0 3, S_dtor 3]"

definition ex_list_made :: state where
  "ex_list_made =
     \<lparr>blocks = [Some \<lparr>strong_counter = 1, weak_counter = 0, pointer = 1, holder = True\<rparr>,
                Some \<lparr>strong_counter = 1, weak_counter = 0, pointer = 2, holder = True\<rparr>],
      vars = [SharedPtr 2 (Some 1), SharedPtr 1 (Some 0), SharedPtr 0 None, Destroyed],
      weak_this = [], members = [(1, 0), (2, 2)], destroyed = [], trace = []\<rparr>"

definition ex_list_made_released :: state where
  "ex_list_made_released =
     \<lparr>blocks = [None, None],
      vars = [Destroyed, SharedPtr 1 (Some 0), Destroyed, Destroyed],
      weak_this = [], members = [(1, 0), (2, 2)], destroyed = [2, 1],
      trace = [DeletePointer_call 0, DeletePointer_call 1, Block_delete 1, Block_delete 0]\<rparr>"

text \<open>
  A node that owns itself, \<^verbatim>\<open>struct Node { SharedPtr<Node> self; }\<close>: the member \<^verbatim>\<open>self\<close>
  (object 0) of the node at address 1 is the only owner of that node, after the handle
  that adopted it (object 1) has been copied into the member and destroyed.
  \<open>ex_cycle_inside\<close> is the state in which the destructor of the node, entered from the
  first call of \<^verbatim>\<open>DeletePointer\<close>, destroys the member.
\<close>

definition ex_cycle_ops :: "op list" where
  "ex_cycle_ops = [New 1 False [Strong], S_from_ptr 1, S_assign 0 1, S_dtor 1]"

definition ex_cycle :: state where
  "ex_cycle =
     \<lparr>blocks = [Some \<lparr>strong_counter = 1, weak_counter = 0, pointer = 1, holder = False\<rparr>],
      vars = [SharedPtr 1 (Some 0), Destroyed],
      weak_this = [], members = [(1, 0)], destroyed = [], trace = []\<rparr>"

definition ex_cycle_inside :: state where
  "ex_cycle_inside = ex_cycle\<lparr>destroyed := [1], trace := [DeletePointer_call 0]\<rparr>"

text \<open>
  A payload whose class derives from \<^verbatim>\<open>EnableSharedFromThis\<close>, at address 1, with its
  member \<^verbatim>\<open>weak_this\<close> (object 0). In \<open>ex_reset_adopted\<close> an empty \<^verbatim>\<open>SharedPtr\<close> (object 1) has
  adopted it by \<^verbatim>\<open>Reset(T*)\<close>; in \<open>ex_ctor_adopted\<close> the constructor from the raw pointer
  has made its owner (object 1; object 2 was the temporary of the assignment to the
  member).
\<close>

definition ex_reset_adopted_ops :: "op list" where
  "ex_reset_adopted_ops = [New 1 True [], S_default, S_reset_ptr 1 1]"

definition ex_reset_adopted :: state where
  "ex_reset_adopted =
     \<lparr>blocks = [Some \<lparr>strong_counter = 1, weak_counter = 0, pointer = 1, holder = False\<rparr>],
      vars = [WeakPtr 0 None, SharedPtr 1 (Some 0)],
      weak_this = [(1, 0)], members = [], destroyed = [], trace = []\<rparr>"

definition ex_ctor_adopted_ops :: "op list" where
  "ex_ctor_adopted_ops = [New 1 True [], S_from_ptr 1]"

definition ex_ctor_adopted :: state where
  "ex_ctor_adopted =
     \<lparr>blocks = [Some \<lparr>strong_counter = 1, weak_counter = 1, pointer = 1, holder = False\<rparr>],
      vars = [WeakPtr 1 (Some 0), SharedPtr 1 (Some 0), Destroyed],
      weak_this = [(1, 0)], members = [], destroyed = [], trace = []\<rparr>"

text \<open>An exclusive handle that holds the pointer 1, with a log and with a heap.\<close>

definition ex_unique_log :: "(ptr list) UniquePtr" where
  "ex_unique_log = \<lparr>first = 1, memory = [], deleter_calls = []\<rparr>"

definition ex_unique :: "(ptr set) UniquePtr" where
  "ex_unique = \<lparr>first = 1, memory = {1, 2}, deleter_calls = []\<rparr>"

section \<open>Lemmas\<close>

subsection \<open>Integers\<close>

lemma sint_inc: "sint (x::32 word) \<noteq> INT_MAX \<Longrightarrow> sint (x + 1) = sint x + 1"
proof -
  assume a: "sint x \<noteq> INT_MAX"
  have "sint x < 2 ^ 31" "- (2 ^ 31) \<le> sint x"
    using sint_lt [of x] sint_ge [of x] by simp_all
  with a have "- (2 ^ 31) \<le> sint x + 1" "sint x + 1 < 2 ^ 31" by (simp_all add: INT_MAX_def)
  then have "signed_take_bit 31 (sint x + 1) = sint x + 1"
    by (rule signed_take_bit_int_eq_self)
  then show ?thesis by (simp add: sint_word_ariths)
qed

lemma word_is_1: "(x::32 word) = 1 \<longleftrightarrow> sint x = 1"
  using word_eq_iff_signed [of x 1] by simp

lemma scast_eq_0: "(scast (x::32 word) :: 64 word) = 0 \<longleftrightarrow> x = 0"
proof -
  have "sint (scast x :: 64 word) = sint x"
    by (rule sint_up_scast) (simp add: is_up)
  then show ?thesis
    by (metis sint_0 word_eq_iff_signed Word.scast_0 signed_0 signed_eq_0_iff)
qed

subsection \<open>Evaluation\<close>

lemmas exec =
  init_def bindE_def INT_MAX_def INT_MIN_def ControlBlockPointer_def ControlBlockHolder_def
  IncrementStrongCounter_def DecrementStrongCounter_def IncrementWeakCounter_def
  DecrementWeakCounter_def block_at_def var_at_def deref_def call_def delete_block_def
  shared_fields_def weak_fields_def set_var_def new_var_def new_block_def members_of_def
  IncrementBlockWeakCounter_def DecrementBlockWeakCounter_def WeakPtr_default_def
  WeakPtr_copy_def WeakPtr_move_def WeakPtr_from_shared_def WeakPtr_assign_def
  WeakPtr_move_assign_def WeakPtr_dtor_def WeakPtr_Reset_def WeakPtr_Swap_def
  WeakPtr_UseCount_def Expired_def IncrementBlockStrongCounter_def assign_weak_this_def
  SharedPtr_default_def SharedPtr_from_ptr_def SharedPtr_copy_def SharedPtr_from_holder_def
  SharedPtr_move_def SharedPtr_alias_def SharedPtr_from_weak_def SharedPtr_assign_def
  SharedPtr_move_assign_def SharedPtr_Reset_def SharedPtr_Reset_ptr_def SharedPtr_Swap_def
  Get_def SharedPtr_UseCount_def Lock_def New_T_def MakeShared_def SharedFromThis_def
  WeakFromThis_def strong_handles_def weak_handles_def payload_deletions_def
  block_deletions_def Let_def

text \<open>The example states are reached from the empty state.\<close>

lemma ex_live_run: "run n init ex_live_ops = Inr ex_live"
  by (simp add: ex_live_ops_def ex_live_def exec)

lemma ex_expired_run: "run n init ex_expired_ops = Inr ex_expired"
  by (simp add: ex_expired_ops_def ex_expired_def exec)

lemma ex_strong_only_run: "run n init ex_strong_only_ops = Inr ex_strong_only"
  by (simp add: ex_strong_only_ops_def ex_strong_only_def exec)

lemma ex_weak_only_run: "run n init ex_weak_only_ops = Inr ex_weak_only"
  by (simp add: ex_weak_only_ops_def ex_weak_only_def exec)

lemma ex_list_run: "run n init ex_list_ops = Inr ex_list"
  by (simp add: ex_list_ops_def ex_list_def exec)

lemma ex_list_made_run: "run n init ex_list_made_ops = Inr ex_list_made"
  by (simp add: ex_list_made_ops_def ex_list_made_def exec)

lemma ex_cycle_run: "run n init ex_cycle_ops = Inr ex_cycle"
  by (simp add: ex_cycle_ops_def ex_cycle_def exec)

lemma ex_reset_adopted_run: "run n init ex_reset_adopted_ops = Inr ex_reset_adopted"
  by (simp add: ex_reset_adopted_ops_def ex_reset_adopted_def exec)

lemma ex_ctor_adopted_run: "run n init ex_ctor_adopted_ops = Inr ex_ctor_adopted"
  by (simp add: ex_ctor_adopted_ops_def ex_ctor_adopted_def exec)

section \<open>The claims\<close>

text \<open>
  C1 fails on a list, at \<^verbatim>\<open>h = h->next\<close>. In \<open>ex_list\<close>, which is reached from the empty
  state, every block's strong counter is the number of the live \<^verbatim>\<open>SharedPtr\<close> objects
  attached to it: \<open>h\<close> (object 1) for block 0 and the member \<^verbatim>\<open>next\<close> of the first node
  (object 0) for block 1. The copy assignment of object 0 to object 1 releases block 0
  first; that destroys the first node and with it the member \<^verbatim>\<open>next\<close>, the operand of the
  assignment, whose destruction frees the second node and block 1. The state after the
  release is \<open>ex_list_released\<close>. The assignment then reads \<^verbatim>\<open>other.block_\<close> of the destroyed
  operand, which is undefined behaviour: in place of a state in which \<open>h\<close> is the one
  owner of block 1 with strong counter 1, the source leaves \<open>h\<close> attached to a freed block.
  The bound needed is 2.
\<close>

theorem assign_from_own_payload:
  "run (Suc (Suc n)) init ex_list_ops = Inr ex_list \<and>
   block_at ex_list 0 = Some \<lparr>strong_counter = 1, weak_counter = 0, pointer = 1, holder = False\<rparr> \<and>
   block_at ex_list 1 = Some \<lparr>strong_counter = 1, weak_counter = 0, pointer = 2, holder = False\<rparr> \<and>
   strong_handles ex_list 0 = 1 \<and> strong_handles ex_list 1 = 1 \<and>
   weak_handles ex_list 0 = 0 \<and> weak_handles ex_list 1 = 0 \<and>
   var_at ex_list 1 = SharedPtr 1 (Some 0) \<and> var_at ex_list 0 = SharedPtr 2 (Some 1) \<and>
   DecrementBlockStrongCounter (Suc (Suc n)) (Some 0) ex_list = Inr ex_list_released \<and>
   var_at ex_list_released 0 = Destroyed \<and> block_at ex_list_released 1 = None \<and>
   shared_fields 0 ex_list_released = Inl Undefined \<and>
   SharedPtr_assign (Suc (Suc n)) 1 0 ex_list = Inl Undefined \<and>
   run (Suc (Suc n)) init (ex_list_ops @ [S_assign 1 0]) = Inl Undefined"
  by (simp add: ex_list_ops_def ex_list_def ex_list_released_def exec)

text \<open>
  C2 fails on a node that owns itself, at \<^verbatim>\<open>node->self.Reset()\<close>. In \<open>ex_cycle\<close>, which is
  reached from the empty state, the member \<^verbatim>\<open>self\<close> (object 0) is the last strong handle of
  block 0, whose strong counter is 1, and \<^verbatim>\<open>DeletePointer\<close> has not been called. \<^verbatim>\<open>Reset()\<close>
  releases before it clears the fields: \<^verbatim>\<open>DecrementBlockStrongCounter\<close> calls
  \<^verbatim>\<open>DeletePointer\<close>, the destructor of the node destroys the member in the state
  \<open>ex_cycle_inside\<close>, where the member is still attached and the counters of block 0 are
  still 1 and 0, and so \<^verbatim>\<open>~SharedPtr\<close> calls \<^verbatim>\<open>DeletePointer\<close> on block 0 a second time. The
  second destruction of the payload is undefined behaviour, and so is the \<^verbatim>\<open>Reset()\<close>. The
  bound needed is 1.
\<close>

theorem reset_of_self_owner:
  "run (Suc n) init ex_cycle_ops = Inr ex_cycle \<and>
   block_at ex_cycle 0 = Some \<lparr>strong_counter = 1, weak_counter = 0, pointer = 1, holder = False\<rparr> \<and>
   var_at ex_cycle 0 = SharedPtr 1 (Some 0) \<and> members_of 1 ex_cycle = [0] \<and>
   strong_handles ex_cycle 0 = 1 \<and> payload_deletions ex_cycle 0 = 0 \<and>
   DeletePointer (Suc n) 0 ex_cycle = destroy_member (Suc n) 0 ex_cycle_inside \<and>
   payload_deletions ex_cycle_inside 0 = 1 \<and>
   block_at ex_cycle_inside 0 = block_at ex_cycle 0 \<and>
   var_at ex_cycle_inside 0 = SharedPtr 1 (Some 0) \<and>
   DecrementBlockStrongCounter n (Some 0) ex_cycle_inside =
     destroy_payload n 1 (ex_cycle_inside\<lparr>trace := [DeletePointer_call 0, DeletePointer_call 0]\<rparr>) \<and>
   destroy_payload n 1 (ex_cycle_inside\<lparr>trace := [DeletePointer_call 0, DeletePointer_call 0]\<rparr>) =
     Inl Undefined \<and>
   SharedPtr_Reset (Suc n) 0 ex_cycle = Inl Undefined \<and>
   run (Suc n) init (ex_cycle_ops @ [S_reset 0]) = Inl Undefined"
  by (simp add: ex_cycle_ops_def ex_cycle_def ex_cycle_inside_def exec)

text \<open>
  C3 fails on a list, at \<^verbatim>\<open>h = std::move(h->next)\<close>. In \<open>ex_list_made\<close>, which is reached
  from the empty state, two nodes made by \<^verbatim>\<open>MakeShared\<close> have one owner each: \<open>h\<close> (object 1)
  owns block 0 and the member \<^verbatim>\<open>next\<close> of the first node (object 0) owns block 1. The move
  assignment of object 0 to object 1 releases block 0 first; that destroys the first node
  and with it the member \<^verbatim>\<open>next\<close>, whose destruction frees block 1, before block 0 is
  freed. The state after the release is \<open>ex_list_made_released\<close>: both blocks have been
  freed once. The assignment then swaps the fields of \<open>h\<close> with those of the destroyed
  operand, which is undefined behaviour: the source attaches the live handle \<open>h\<close> to
  block 1, which it has just freed. The bound needed is 2.
\<close>

theorem move_assign_from_own_payload:
  "run (Suc (Suc n)) init ex_list_made_ops = Inr ex_list_made \<and>
   block_at ex_list_made 0 = Some \<lparr>strong_counter = 1, weak_counter = 0, pointer = 1, holder = True\<rparr> \<and>
   block_at ex_list_made 1 = Some \<lparr>strong_counter = 1, weak_counter = 0, pointer = 2, holder = True\<rparr> \<and>
   var_at ex_list_made 1 = SharedPtr 1 (Some 0) \<and> var_at ex_list_made 0 = SharedPtr 2 (Some 1) \<and>
   DecrementBlockStrongCounter (Suc (Suc n)) (Some 0) ex_list_made = Inr ex_list_made_released \<and>
   block_at ex_list_made_released 0 = None \<and> block_at ex_list_made_released 1 = None \<and>
   block_deletions ex_list_made_released 0 = 1 \<and> block_deletions ex_list_made_released 1 = 1 \<and>
   var_at ex_list_made_released 0 = Destroyed \<and>
   shared_fields 0 (set_var 1 (SharedPtr 0 None) ex_list_made_released) = Inl Undefined \<and>
   SharedPtr_move_assign (Suc (Suc n)) 1 0 ex_list_made = Inl Undefined \<and>
   run (Suc (Suc n)) init (ex_list_made_ops @ [S_move_assign 1 0]) = Inl Undefined"
  by (simp add: ex_list_made_ops_def ex_list_made_def ex_list_made_released_def exec)

text \<open>
  C4. Promotion, the constructor of \<^verbatim>\<open>SharedPtr\<close> from a \<^verbatim>\<open>WeakPtr\<close> that is attached to an
  allocated block: when the strong counter of the block is 0 it throws \<^verbatim>\<open>BadWeakPtr\<close>; when
  the strong counter is positive (and below the largest \<^verbatim>\<open>int\<close>, so that the increment is
  defined) it succeeds, the new handle has the pointer and the block of the weak handle,
  and the strong counter has grown by one.
\<close>

theorem promotion_from_weak:
  assumes "var_at s w = WeakPtr p (Some b)" and "block_at s b = Some cb"
  shows "(strong_counter cb = 0 \<longrightarrow> SharedPtr_from_weak w s = Inl BadWeakPtr) \<and>
         (0 < sint (strong_counter cb) \<and> sint (strong_counter cb) \<noteq> INT_MAX \<longrightarrow>
            SharedPtr_from_weak w s =
              Inr (s\<lparr>blocks := (blocks s)[b := Some (cb\<lparr>strong_counter := strong_counter cb + 1\<rparr>)],
                     vars := vars s @ [SharedPtr p (Some b)]\<rparr>) \<and>
            sint (strong_counter cb + 1) = sint (strong_counter cb) + 1)"
  using assms
  by (auto simp: SharedPtr_from_weak_def weak_fields_def deref_def bindE_def call_def
      block_at_def new_var_def IncrementStrongCounter_def sint_inc split: if_splits)

theorem promotion_from_weak_witness:
  "var_at ex_expired 1 = WeakPtr 1 (Some 0) \<and>
   block_at ex_expired 0 = Some \<lparr>strong_counter = 0, weak_counter = 1, pointer = 1, holder = True\<rparr> \<and>
   SharedPtr_from_weak 1 ex_expired = Inl BadWeakPtr \<and>
   var_at ex_live 3 = WeakPtr 2 (Some 1) \<and>
   block_at ex_live 1 = Some \<lparr>strong_counter = 1, weak_counter = 1, pointer = 2, holder = False\<rparr> \<and>
   SharedPtr_from_weak 3 ex_live =
     Inr (ex_live\<lparr>blocks := (blocks ex_live)
                       [1 := Some \<lparr>strong_counter = 2, weak_counter = 1, pointer = 2, holder = False\<rparr>],
                   vars := vars ex_live @ [SharedPtr 2 (Some 1)]\<rparr>)"
proof -
  have v1: "var_at ex_expired 1 = WeakPtr 1 (Some 0)"
    by (simp add: ex_expired_def var_at_def)
  have b1: "block_at ex_expired 0 =
      Some \<lparr>strong_counter = 0, weak_counter = 1, pointer = 1, holder = True\<rparr>"
    by (simp add: ex_expired_def block_at_def)
  have v2: "var_at ex_live 3 = WeakPtr 2 (Some 1)"
    by (simp add: ex_live_def var_at_def)
  have b2: "block_at ex_live 1 =
      Some \<lparr>strong_counter = 1, weak_counter = 1, pointer = 2, holder = False\<rparr>"
    by (simp add: ex_live_def block_at_def)
  from promotion_from_weak [OF v1 b1]
  have c1: "SharedPtr_from_weak 1 ex_expired = Inl BadWeakPtr" by simp
  from promotion_from_weak [OF v2 b2]
  have c2: "SharedPtr_from_weak 3 ex_live =
     Inr (ex_live\<lparr>blocks := (blocks ex_live)
                       [1 := Some \<lparr>strong_counter = 2, weak_counter = 1, pointer = 2, holder = False\<rparr>],
                   vars := vars ex_live @ [SharedPtr 2 (Some 1)]\<rparr>)"
    by (simp add: INT_MAX_def)
  from v1 b1 c1 v2 b2 c2 show ?thesis by simp
qed

text \<open>
  C5. \<^verbatim>\<open>Lock()\<close> on a \<^verbatim>\<open>WeakPtr\<close> that is expired, that is empty or attached to an
  allocated block whose strong counter is 0, makes an empty \<^verbatim>\<open>SharedPtr\<close> (null pointer,
  no block), changes nothing else and raises nothing. On a \<^verbatim>\<open>WeakPtr\<close> that is not expired
  (and whose strong counter is below the largest \<^verbatim>\<open>int\<close>) it makes a \<^verbatim>\<open>SharedPtr\<close> with the
  pointer and the block of the weak handle, and the strong counter is its value just
  before the call plus one.
\<close>

theorem lock_weak:
  assumes "var_at s w = WeakPtr p bl"
  shows "(bl = None \<longrightarrow> Expired w s = Inr True \<and> Lock w s = Inr (new_var (SharedPtr 0 None) s)) \<and>
         (\<forall>b cb. bl = Some b \<and> block_at s b = Some cb \<longrightarrow>
            (strong_counter cb = 0 \<longrightarrow>
               Expired w s = Inr True \<and> Lock w s = Inr (new_var (SharedPtr 0 None) s)) \<and>
            (strong_counter cb \<noteq> 0 \<and> sint (strong_counter cb) \<noteq> INT_MAX \<longrightarrow>
               Expired w s = Inr False \<and>
               Lock w s =
                 Inr (s\<lparr>blocks := (blocks s)[b := Some (cb\<lparr>strong_counter := strong_counter cb + 1\<rparr>)],
                        vars := vars s @ [SharedPtr p (Some b)]\<rparr>) \<and>
               sint (strong_counter cb + 1) = sint (strong_counter cb) + 1))"
  using assms
  by (auto simp: Lock_def Expired_def WeakPtr_UseCount_def SharedPtr_default_def
      SharedPtr_from_weak_def weak_fields_def deref_def bindE_def call_def scast_eq_0
      block_at_def new_var_def IncrementStrongCounter_def sint_inc split: if_splits)

theorem lock_weak_witness:
  "var_at ex_live 4 = WeakPtr 0 None \<and>
   Lock 4 ex_live = Inr (new_var (SharedPtr 0 None) ex_live) \<and>
   var_at ex_expired 1 = WeakPtr 1 (Some 0) \<and>
   block_at ex_expired 0 = Some \<lparr>strong_counter = 0, weak_counter = 1, pointer = 1, holder = True\<rparr> \<and>
   Lock 1 ex_expired = Inr (new_var (SharedPtr 0 None) ex_expired) \<and>
   var_at ex_live 1 = WeakPtr 1 (Some 0) \<and>
   block_at ex_live 0 = Some \<lparr>strong_counter = 1, weak_counter = 1, pointer = 1, holder = True\<rparr> \<and>
   Lock 1 ex_live =
     Inr (ex_live\<lparr>blocks := (blocks ex_live)
                       [0 := Some \<lparr>strong_counter = 2, weak_counter = 1, pointer = 1, holder = True\<rparr>],
                   vars := vars ex_live @ [SharedPtr 1 (Some 0)]\<rparr>)"
proof -
  have v0: "var_at ex_live 4 = WeakPtr 0 None"
    by (simp add: ex_live_def var_at_def)
  have v1: "var_at ex_expired 1 = WeakPtr 1 (Some 0)"
    by (simp add: ex_expired_def var_at_def)
  have b1: "block_at ex_expired 0 =
      Some \<lparr>strong_counter = 0, weak_counter = 1, pointer = 1, holder = True\<rparr>"
    by (simp add: ex_expired_def block_at_def)
  have v2: "var_at ex_live 1 = WeakPtr 1 (Some 0)"
    by (simp add: ex_live_def var_at_def)
  have b2: "block_at ex_live 0 =
      Some \<lparr>strong_counter = 1, weak_counter = 1, pointer = 1, holder = True\<rparr>"
    by (simp add: ex_live_def block_at_def)
  from lock_weak [OF v0]
  have c0: "Lock 4 ex_live = Inr (new_var (SharedPtr 0 None) ex_live)" by simp
  from lock_weak [OF v1] b1
  have c1: "Lock 1 ex_expired = Inr (new_var (SharedPtr 0 None) ex_expired)" by simp
  from lock_weak [OF v2] b2
  have c2: "Lock 1 ex_live =
     Inr (ex_live\<lparr>blocks := (blocks ex_live)
                       [0 := Some \<lparr>strong_counter = 2, weak_counter = 1, pointer = 1, holder = True\<rparr>],
                   vars := vars ex_live @ [SharedPtr 1 (Some 0)]\<rparr>)"
    by (simp add: INT_MAX_def)
  from v0 c0 v1 b1 c1 v2 b2 c2 show ?thesis by simp
qed

text \<open>
  C6 fails when the first owner adopts the raw pointer by \<^verbatim>\<open>Reset(T*)\<close>. A payload whose
  class derives from \<^verbatim>\<open>EnableSharedFromThis\<close> is constructed at address 1, and an empty
  \<^verbatim>\<open>SharedPtr\<close> adopts it by \<^verbatim>\<open>Reset\<close>, which gives \<open>ex_reset_adopted\<close>: the handle owns the
  payload, \<^verbatim>\<open>Get()\<close> is its address and \<^verbatim>\<open>UseCount()\<close> is 1, but the member \<^verbatim>\<open>weak_this\<close> is
  still empty, because \<^verbatim>\<open>Reset(T*)\<close> has no assignment to it. So \<^verbatim>\<open>SharedFromThis()\<close>
  dereferences a null block pointer, which is undefined behaviour, and \<^verbatim>\<open>WeakFromThis()\<close>
  returns an empty \<^verbatim>\<open>WeakPtr\<close>, with a null pointer and \<^verbatim>\<open>UseCount()\<close> 0. The constructor from
  the raw pointer, on the same payload, installs the member (\<open>ex_ctor_adopted\<close>), and
  there \<^verbatim>\<open>SharedFromThis()\<close> returns a handle with the payload's address and \<^verbatim>\<open>UseCount()\<close>
  2, and \<^verbatim>\<open>WeakFromThis()\<close> a handle with the payload's address and \<^verbatim>\<open>UseCount()\<close> 1.
\<close>

theorem self_observation_after_reset:
  "run n init ex_reset_adopted_ops = Inr ex_reset_adopted \<and>
   Get 1 ex_reset_adopted = Inr 1 \<and> SharedPtr_UseCount 1 ex_reset_adopted = Inr 1 \<and>
   strong_handles ex_reset_adopted 0 = 1 \<and>
   map_of (weak_this ex_reset_adopted) 1 = Some 0 \<and> var_at ex_reset_adopted 0 = WeakPtr 0 None \<and>
   SharedFromThis 1 ex_reset_adopted = Inl Undefined \<and>
   WeakFromThis 1 ex_reset_adopted = Inr (new_var (WeakPtr 0 None) ex_reset_adopted) \<and>
   WeakPtr_UseCount 2 (new_var (WeakPtr 0 None) ex_reset_adopted) = Inr 0 \<and>
   run n init ex_ctor_adopted_ops = Inr ex_ctor_adopted \<and>
   var_at ex_ctor_adopted 0 = WeakPtr 1 (Some 0) \<and>
   SharedFromThis 1 ex_ctor_adopted =
     Inr (ex_ctor_adopted
            \<lparr>blocks := [Some \<lparr>strong_counter = 2, weak_counter = 1, pointer = 1, holder = False\<rparr>],
             vars := vars ex_ctor_adopted @ [SharedPtr 1 (Some 0)]\<rparr>) \<and>
   WeakFromThis 1 ex_ctor_adopted =
     Inr (ex_ctor_adopted
            \<lparr>blocks := [Some \<lparr>strong_counter = 1, weak_counter = 2, pointer = 1, holder = False\<rparr>],
             vars := vars ex_ctor_adopted @ [WeakPtr 1 (Some 0)]\<rparr>)"
  by (simp add: ex_reset_adopted_ops_def ex_reset_adopted_def ex_ctor_adopted_ops_def
      ex_ctor_adopted_def exec)

text \<open>
  C7. Let \<open>h1\<close> be a live \<^verbatim>\<open>SharedPtr\<close> attached to an allocated block whose strong counter
  is positive (as it is when \<open>h1\<close> is counted, and below the largest \<^verbatim>\<open>int\<close>), and \<open>q\<close> any
  pointer. The aliasing constructor makes a \<^verbatim>\<open>SharedPtr\<close> \<open>h2\<close> with pointer \<open>q\<close> and the
  block of \<open>h1\<close>, and the strong counter grows by one: \<^verbatim>\<open>Get()\<close> of \<open>h2\<close> is \<open>q\<close> and its
  \<^verbatim>\<open>UseCount()\<close> is that counter. Destroying \<open>h1\<close> afterwards only takes the counter back,
  whatever the bound \<open>n\<close>: the trace is unchanged, so the payload is not deleted and the
  block is not freed, and \<open>h2\<close> still reads the counter of that block.
\<close>

theorem aliasing_constructor:
  assumes "var_at s h1 = SharedPtr p (Some b)" and "block_at s b = Some cb"
    and "0 < sint (strong_counter cb)" and "sint (strong_counter cb) \<noteq> INT_MAX"
  shows "\<exists>s1 s2.
           SharedPtr_alias h1 q s = Inr s1 \<and>
           s1 = s\<lparr>blocks := (blocks s)[b := Some (cb\<lparr>strong_counter := strong_counter cb + 1\<rparr>)],
                  vars := vars s @ [SharedPtr q (Some b)]\<rparr> \<and>
           sint (strong_counter cb + 1) = sint (strong_counter cb) + 1 \<and>
           Get (length (vars s)) s1 = Inr q \<and>
           SharedPtr_UseCount (length (vars s)) s1 = Inr (scast (strong_counter cb + 1)) \<and>
           SharedPtr_dtor n h1 s1 = Inr s2 \<and>
           s2 = s\<lparr>vars := (vars s)[h1 := Destroyed] @ [SharedPtr q (Some b)]\<rparr> \<and>
           trace s2 = trace s \<and> block_at s2 b = Some cb \<and>
           Get (length (vars s)) s2 = Inr q \<and>
           SharedPtr_UseCount (length (vars s)) s2 = Inr (scast (strong_counter cb))"
proof -
  from assms(1) have h: "h1 < length (vars s)" and v: "vars s ! h1 = SharedPtr p (Some b)"
    by (auto simp: var_at_def split: if_splits)
  from assms(2) have b: "b < length (blocks s)" and cb: "blocks s ! b = Some cb"
    by (auto simp: block_at_def split: if_splits)
  note inc = sint_inc [OF assms(4)]
  from inc assms(3) have n1: "strong_counter cb + 1 \<noteq> 1"
    and nm: "sint (strong_counter cb + 1) \<noteq> INT_MIN"
    by (auto simp: word_is_1 INT_MIN_def)
  have upd: "(blocks s)[b := Some cb] = blocks s"
    using cb by (metis list_update_id)
  let ?s1 = "s\<lparr>blocks := (blocks s)[b := Some (cb\<lparr>strong_counter := strong_counter cb + 1\<rparr>)],
                vars := vars s @ [SharedPtr q (Some b)]\<rparr>"
  let ?s2 = "s\<lparr>vars := (vars s)[h1 := Destroyed] @ [SharedPtr q (Some b)]\<rparr>"
  have a: "SharedPtr_alias h1 q s = Inr ?s1"
    using h v b cb assms(4)
    by (simp add: SharedPtr_alias_def shared_fields_def var_at_def bindE_def new_var_def
        IncrementBlockStrongCounter_def call_def deref_def block_at_def IncrementStrongCounter_def)
  have d: "SharedPtr_dtor n h1 ?s1 = Inr ?s2"
    using h v b cb n1 nm inc assms(3) upd
    by (simp add: shared_fields_def var_at_def bindE_def set_var_def
        call_def deref_def block_at_def DecrementStrongCounter_def
        nth_append list_update_append)
  have o1: "Get (length (vars s)) ?s1 = Inr q \<and>
            SharedPtr_UseCount (length (vars s)) ?s1 = Inr (scast (strong_counter cb + 1))"
    using b
    by (simp add: Get_def SharedPtr_UseCount_def shared_fields_def var_at_def bindE_def
        deref_def block_at_def)
  have o2: "trace ?s2 = trace s \<and> block_at ?s2 b = Some cb \<and>
            Get (length (vars s)) ?s2 = Inr q \<and>
            SharedPtr_UseCount (length (vars s)) ?s2 = Inr (scast (strong_counter cb))"
    using b cb
    by (simp add: Get_def SharedPtr_UseCount_def shared_fields_def var_at_def bindE_def
        deref_def block_at_def nth_append)
  from a d inc o1 o2 show ?thesis by blast
qed

theorem aliasing_constructor_witness:
  "var_at ex_live 0 = SharedPtr 1 (Some 0) \<and>
   block_at ex_live 0 = Some \<lparr>strong_counter = 1, weak_counter = 1, pointer = 1, holder = True\<rparr> \<and>
   (\<exists>s1 s2. SharedPtr_alias 0 7 ex_live = Inr s1 \<and> Get 5 s1 = Inr 7 \<and>
      SharedPtr_UseCount 5 s1 = Inr 2 \<and> SharedPtr_dtor 0 0 s1 = Inr s2 \<and> trace s2 = [] \<and>
      Get 5 s2 = Inr 7 \<and> SharedPtr_UseCount 5 s2 = Inr 1)"
proof -
  have v: "var_at ex_live 0 = SharedPtr 1 (Some 0)"
    by (simp add: ex_live_def var_at_def)
  have b: "block_at ex_live 0 =
      Some \<lparr>strong_counter = 1, weak_counter = 1, pointer = 1, holder = True\<rparr>"
    by (simp add: ex_live_def block_at_def)
  have l: "length (vars ex_live) = 5" "trace ex_live = []"
    by (simp_all add: ex_live_def)
  from aliasing_constructor [OF v b, of 7 0]
  have "\<exists>s1 s2. SharedPtr_alias 0 7 ex_live = Inr s1 \<and> Get 5 s1 = Inr 7 \<and>
      SharedPtr_UseCount 5 s1 = Inr 2 \<and> SharedPtr_dtor 0 0 s1 = Inr s2 \<and> trace s2 = [] \<and>
      Get 5 s2 = Inr 7 \<and> SharedPtr_UseCount 5 s2 = Inr 1"
    by (simp add: INT_MAX_def l)
  with v b show ?thesis by simp
qed

text \<open>
  C8, as the code has it. For every exclusive handle, every deletion policy \<open>d\<close> and
  every pointer \<open>p\<close>, with \<open>r\<close> the pointer the handle holds: \<^verbatim>\<open>Reset(p)\<close> first stores \<open>p\<close> in the
  handle and then calls the policy, exactly once and on \<open>r\<close>. The policy therefore runs
  with the handle already holding \<open>p\<close>, and what it leaves in the handle and in the memory
  is the result; \<^verbatim>\<open>Get()\<close> is \<open>p\<close> afterwards when the policy leaves the pointer of the
  handle as it finds it, as the default policy does.
\<close>

theorem reset_adopts_then_destroys:
  "UniquePtr_Reset d p u =
     \<lparr>first = fst (d (UniquePtr_Get u) (p, memory u)),
      memory = snd (d (UniquePtr_Get u) (p, memory u)),
      deleter_calls = deleter_calls u @ [UniquePtr_Get u]\<rparr> \<and>
   (fst (d (UniquePtr_Get u) (p, memory u)) = p \<longrightarrow> UniquePtr_Get (UniquePtr_Reset d p u) = p) \<and>
   UniquePtr_Get (UniquePtr_Reset UniquePtrDeleter p v) = p \<and>
   memory (UniquePtr_Reset UniquePtrDeleter p v) = memory v - {UniquePtr_Get v}"
  by (simp add: UniquePtr_Reset_def GetDeleter_call_def UniquePtr_Get_def UniquePtrDeleter_def
      Let_def)

theorem reset_adopts_then_destroys_witness:
  "fst (UniquePtrDeleter (UniquePtr_Get ex_unique) (2, memory ex_unique)) = 2 \<and>
   UniquePtr_Reset UniquePtrDeleter 2 ex_unique =
     \<lparr>first = 2, memory = {2}, deleter_calls = [1]\<rparr> \<and>
   UniquePtr_Get (UniquePtr_Reset UniquePtrDeleter 2 ex_unique) = 2"
proof -
  have h: "fst (UniquePtrDeleter (UniquePtr_Get ex_unique) (2, memory ex_unique)) = 2"
    by (simp add: UniquePtrDeleter_def)
  have m: "snd (UniquePtrDeleter (UniquePtr_Get ex_unique) (2, memory ex_unique)) = {2}"
    by (auto simp: UniquePtrDeleter_def UniquePtr_Get_def ex_unique_def)
  have c: "deleter_calls ex_unique @ [UniquePtr_Get ex_unique] = [1]"
    by (simp add: UniquePtr_Get_def ex_unique_def)
  note r = reset_adopts_then_destroys
    [where d = UniquePtrDeleter and p = 2 and u = ex_unique and v = ex_unique]
  from r h m c have c1: "UniquePtr_Reset UniquePtrDeleter 2 ex_unique =
     \<lparr>first = 2, memory = {2}, deleter_calls = [1]\<rparr>"
    by simp
  from r h have c2: "UniquePtr_Get (UniquePtr_Reset UniquePtrDeleter 2 ex_unique) = 2"
    by blast
  from h c1 c2 show ?thesis by blast
qed

text \<open>
  C8 as the specification states it, ``destroys the current resource via the policy,
  then adopts new'', fails for a policy that uses its handle. The handle holds 1 and is
  reset to 2. A policy that writes down what \<^verbatim>\<open>Get()\<close> of its handle returns sees 2 in the
  source and would see 1 in the specified order; and after a policy that calls
  \<^verbatim>\<open>Release()\<close> on its handle \<^verbatim>\<open>Get()\<close> is null in the source, where the specified order would
  leave 2.
\<close>

theorem reset_order_counterexample:
  "UniquePtr_Reset logging_deleter 2 ex_unique_log \<noteq> Reset_as_specified logging_deleter 2 ex_unique_log \<and>
   memory (UniquePtr_Reset logging_deleter 2 ex_unique_log) = [2] \<and>
   memory (Reset_as_specified logging_deleter 2 ex_unique_log) = [1] \<and>
   UniquePtr_Get (UniquePtr_Reset releasing_deleter 2 ex_unique) = 0 \<and>
   UniquePtr_Get (Reset_as_specified releasing_deleter 2 ex_unique) = 2"
  by (simp add: UniquePtr_Reset_def Reset_as_specified_def GetDeleter_call_def UniquePtr_Get_def
      logging_deleter_def releasing_deleter_def ex_unique_log_def ex_unique_def Let_def)

text \<open>
  C9. Copy-assigning a live \<^verbatim>\<open>SharedPtr\<close> to itself returns at the test
  \<^verbatim>\<open>this == &other\<close>: the whole state is unchanged, so the pointer and the block of the
  handle and both counters of its block are what they were, and nothing is added to the
  trace, neither a payload deletion nor a block deletion. The same holds, independently,
  for copy-assigning a live \<^verbatim>\<open>WeakPtr\<close> to itself.
\<close>

theorem self_assignment_noop:
  "(var_at s h = SharedPtr p bl \<longrightarrow> SharedPtr_assign n h h s = Inr s) \<and>
   (var_at s w = WeakPtr q bl' \<longrightarrow> WeakPtr_assign w w s = Inr s)"
  by (simp add: SharedPtr_assign_def WeakPtr_assign_def shared_fields_def weak_fields_def bindE_def)

theorem self_assignment_noop_witness:
  "var_at ex_strong_only 0 = SharedPtr 1 (Some 0) \<and>
   SharedPtr_assign 0 0 0 ex_strong_only = Inr ex_strong_only \<and>
   var_at ex_weak_only 1 = WeakPtr 1 (Some 0) \<and>
   WeakPtr_assign 1 1 ex_weak_only = Inr ex_weak_only"
proof -
  have v1: "var_at ex_strong_only 0 = SharedPtr 1 (Some 0)"
    by (simp add: ex_strong_only_def var_at_def)
  have v2: "var_at ex_weak_only 1 = WeakPtr 1 (Some 0)"
    by (simp add: ex_weak_only_def var_at_def)
  from self_assignment_noop [of ex_strong_only 0 1 "Some 0" 0 1 1 "Some 0"] v1
  have c1: "SharedPtr_assign 0 0 0 ex_strong_only = Inr ex_strong_only" by simp
  from self_assignment_noop [of ex_weak_only 0 1 "Some 0" 0 1 1 "Some 0"] v2
  have c2: "WeakPtr_assign 1 1 ex_weak_only = Inr ex_weak_only" by simp
  from v1 c1 v2 c2 show ?thesis by simp
qed

text \<open>
  C10. \<^verbatim>\<open>Swap\<close> on two live \<^verbatim>\<open>SharedPtr\<close> objects exchanges their two fields and does nothing
  else: in the resulting state only the two handle objects differ, so the blocks with
  their strong and weak counters are unchanged and the trace has no new payload or block
  deletion. The same holds, independently, for \<^verbatim>\<open>Swap\<close> on two live \<^verbatim>\<open>WeakPtr\<close> objects.
\<close>

theorem swap_exchanges_fields:
  "(var_at s a = SharedPtr p bl \<and> var_at s b = SharedPtr q bl' \<longrightarrow>
      SharedPtr_Swap a b s = Inr (s\<lparr>vars := (vars s)[a := SharedPtr q bl', b := SharedPtr p bl]\<rparr>)) \<and>
   (var_at s c = WeakPtr p' cl \<and> var_at s d = WeakPtr q' cl' \<longrightarrow>
      WeakPtr_Swap c d s = Inr (s\<lparr>vars := (vars s)[c := WeakPtr q' cl', d := WeakPtr p' cl]\<rparr>))"
  by (simp add: SharedPtr_Swap_def WeakPtr_Swap_def shared_fields_def weak_fields_def bindE_def
      set_var_def)

theorem swap_exchanges_fields_witness:
  "var_at ex_strong_only 0 = SharedPtr 1 (Some 0) \<and> var_at ex_strong_only 1 = SharedPtr 2 (Some 1) \<and>
   SharedPtr_Swap 0 1 ex_strong_only =
     Inr (ex_strong_only\<lparr>vars := [SharedPtr 2 (Some 1), SharedPtr 1 (Some 0)]\<rparr>) \<and>
   blocks (ex_strong_only\<lparr>vars := [SharedPtr 2 (Some 1), SharedPtr 1 (Some 0)]\<rparr>) =
     blocks ex_strong_only \<and>
   trace (ex_strong_only\<lparr>vars := [SharedPtr 2 (Some 1), SharedPtr 1 (Some 0)]\<rparr>) =
     trace ex_strong_only \<and>
   var_at ex_weak_only 1 = WeakPtr 1 (Some 0) \<and> var_at ex_weak_only 2 = WeakPtr 0 None \<and>
   WeakPtr_Swap 1 2 ex_weak_only =
     Inr (ex_weak_only\<lparr>vars := [Destroyed, WeakPtr 0 None, WeakPtr 1 (Some 0)]\<rparr>)"
proof -
  have v: "var_at ex_strong_only 0 = SharedPtr 1 (Some 0)"
    "var_at ex_strong_only 1 = SharedPtr 2 (Some 1)"
    by (simp_all add: ex_strong_only_def var_at_def)
  have w: "var_at ex_weak_only 1 = WeakPtr 1 (Some 0)" "var_at ex_weak_only 2 = WeakPtr 0 None"
    by (simp_all add: ex_weak_only_def var_at_def)
  have l: "vars ex_strong_only = [SharedPtr 1 (Some 0), SharedPtr 2 (Some 1)]"
    "vars ex_weak_only = [Destroyed, WeakPtr 1 (Some 0), WeakPtr 0 None]"
    by (simp_all add: ex_strong_only_def ex_weak_only_def)
  from swap_exchanges_fields
    [of ex_strong_only 0 1 "Some 0" 1 2 "Some 1" 0 0 None 0 0 None] v
  have c1: "SharedPtr_Swap 0 1 ex_strong_only =
     Inr (ex_strong_only\<lparr>vars := [SharedPtr 2 (Some 1), SharedPtr 1 (Some 0)]\<rparr>)"
    by (simp add: l)
  from swap_exchanges_fields
    [of ex_weak_only 0 0 None 0 0 None 1 1 "Some 0" 2 0 None] w
  have c2: "WeakPtr_Swap 1 2 ex_weak_only =
     Inr (ex_weak_only\<lparr>vars := [Destroyed, WeakPtr 0 None, WeakPtr 1 (Some 0)]\<rparr>)"
    by (simp add: l)
  from v w c1 c2 show ?thesis by simp
qed

end
